theory Spec2Isabelle
  imports Main "HOL-Library.Sublist"
begin

section \<open>Python values used by the handler\<close>

text \<open>
  The handler of \<^verbatim>\<open>src/handler.py\<close> formats Python integers in three ways:
  \<^verbatim>\<open>f'{time}'\<close> (that is \<^verbatim>\<open>str(time)\<close>), \<^verbatim>\<open>f'{t:02d}'\<close> and
  \<^verbatim>\<open>f'{duration}'\<close>. Python integers are unbounded, so they are \<^typ>\<open>int\<close> here.
\<close>

definition digit_char :: "nat \<Rightarrow> char" where
  "digit_char d = ''0123456789'' ! (d mod 10)"

function str_nat :: "nat \<Rightarrow> string" where
  "str_nat n = (if n < 10 then [digit_char n] else str_nat (n div 10) @ [digit_char (n mod 10)])"
  by pat_completeness auto
termination
  by (relation "measure id") auto

declare str_nat.simps [simp del]

definition str_int :: "int \<Rightarrow> string" where
  \<comment> \<open>\<^verbatim>\<open>str(i)\<close>, also what \<^verbatim>\<open>f'{i}'\<close> gives.\<close>
  "str_int i = (if i < 0 then CHR ''-'' # str_nat (nat (- i)) else str_nat (nat i))"

definition format_02d :: "int \<Rightarrow> string" where
  \<comment> \<open>\<^verbatim>\<open>f'{t:02d}'\<close>: zero padding to width two; the sign counts in the width.\<close>
  "format_02d t =
     (if t < 0 then CHR ''-'' # str_nat (nat (- t))
      else if t < 10 then CHR ''0'' # str_nat (nat t)
      else str_nat (nat t))"

section \<open>The hour label of \<^verbatim>\<open>_reserve_time\<close>\<close>

definition time_text :: "int \<Rightarrow> string" where
  \<comment> \<open>Lines 159 to 164; \<^verbatim>\<open>%\<close> of Python is the floor modulus, as \<open>mod\<close> on \<^typ>\<open>int\<close>.\<close>
  "time_text time =
     (if time < 12 then str_int time @ '':00 AM''
      else if time = 12 then ''12:00 PM''
      else str_int (time mod 12) @ '':00 PM'')"

section \<open>Exceptions, the browser and the handler object\<close>

text \<open>
  Exceptions are values. Every constructor stands for a class below Python's
  \<^verbatim>\<open>Exception\<close>, which is what selenium, \<^verbatim>\<open>assert\<close> and pandas raise;
  the string is the message. So the bare \<^verbatim>\<open>except\<close> of line 182 and the
  \<^verbatim>\<open>except Exception\<close> of line 43 both catch every value of this type. An interrupt
  of the process (\<^verbatim>\<open>KeyboardInterrupt\<close>, \<^verbatim>\<open>SystemExit\<close>), which only the former would
  catch, is not a result of any call the handler makes and is not modelled.
\<close>

datatype exn =
    TimeoutException string
  | WebDriverException string
  | RuntimeError string
  | AssertionError string
  | ValueError string

datatype By = ID | CSS_SELECTOR

type_synonym locator = "By \<times> string"

type_synonym element = nat

record timestamp =
  ts_day :: int
  ts_hour :: int
  ts_minute :: int
  ts_second :: int
  ts_microsecond :: int

text \<open>
  The web site and the clock are outside the program. They are a parameter: a record of
  the operations the handler calls, each a function of the outside world \<open>'w\<close> giving
  the new world and either the exception raised or the value returned.
\<close>

record 'w env =
  driver_get :: "string \<Rightarrow> 'w \<Rightarrow> 'w \<times> (exn + unit)"
  driver_find_element :: "By \<Rightarrow> string \<Rightarrow> 'w \<Rightarrow> 'w \<times> (exn + element)"
  driver_find_elements :: "By \<Rightarrow> string \<Rightarrow> 'w \<Rightarrow> 'w \<times> (exn + element list)"
  element_text :: "element \<Rightarrow> 'w \<Rightarrow> 'w \<times> (exn + string)"
  element_click :: "element \<Rightarrow> 'w \<Rightarrow> 'w \<times> (exn + unit)"
  element_send_keys :: "element \<Rightarrow> string \<Rightarrow> 'w \<Rightarrow> 'w \<times> (exn + unit)"
  wait_until_present :: "locator \<Rightarrow> int \<Rightarrow> 'w \<Rightarrow> 'w \<times> (exn + unit)"
  timestamp_now :: "'w \<Rightarrow> 'w \<times> (exn + timestamp)"
  time_sleep :: "int \<Rightarrow> 'w \<Rightarrow> 'w \<times> (exn + unit)"

text \<open>
  What the run did is kept in a trace: one event for each call of an operation of the
  environment, in call order, and one event \<open>Reserve_time t\<close> at each entry into
  \<^verbatim>\<open>_reserve_time(t)\<close>. The trace only observes; no branch of the model reads it.
\<close>

datatype event =
    Get string
  | Find_element By string
  | Find_elements By string
  | Text element
  | Click element
  | Send_keys element string
  | Until_present locator int
  | Now
  | Sleep int
  | Reserve_time int

record 'w handler =
  driver :: 'w
  username :: string
  password :: string
  is_logged_in :: bool
  stdout :: "string list"
  trace :: "event list"

type_synonym ('w, 'a) action = "'w handler \<Rightarrow> 'w handler \<times> (exn + 'a)"

definition return_val :: "'a \<Rightarrow> ('w, 'a) action" where
  "return_val x h = (h, Inr x)"

definition raise_exn :: "exn \<Rightarrow> ('w, 'a) action" where
  "raise_exn e h = (h, Inl e)"

definition and_then :: "('w, 'a) action \<Rightarrow> ('a \<Rightarrow> ('w, 'b) action) \<Rightarrow> ('w, 'b) action" where
  "and_then m f h = (case m h of (h', Inl e) \<Rightarrow> (h', Inl e) | (h', Inr x) \<Rightarrow> f x h')"

definition try_except :: "('w, 'a) action \<Rightarrow> (exn \<Rightarrow> ('w, 'a) action) \<Rightarrow> ('w, 'a) action" where
  "try_except m handle h = (case m h of (h', Inl e) \<Rightarrow> handle e h' | (h', Inr x) \<Rightarrow> (h', Inr x))"

definition perform :: "event \<Rightarrow> ('w \<Rightarrow> 'w \<times> (exn + 'a)) \<Rightarrow> ('w, 'a) action" where
  "perform ev operation h =
     (case operation (driver h) of
        (w, r) \<Rightarrow> (h\<lparr>driver := w, trace := trace h @ [ev]\<rparr>, r))"

definition log_event :: "event \<Rightarrow> ('w, unit) action" where
  "log_event ev h = (h\<lparr>trace := trace h @ [ev]\<rparr>, Inr ())"

definition print :: "string \<Rightarrow> ('w, unit) action" where
  \<comment> \<open>\<^verbatim>\<open>print(line)\<close>: one entry of \<open>stdout\<close> for each call.\<close>
  "print line h = (h\<lparr>stdout := stdout h @ [line]\<rparr>, Inr ())"

subsection \<open>\<^verbatim>\<open>_check_element\<close>\<close>

definition is_space :: "char \<Rightarrow> bool" where
  "is_space c = (c \<in> set [CHR '' '', CHR 0x09, CHR 0x0A, CHR 0x0B, CHR 0x0C, CHR 0x0D,
                          CHR 0x1C, CHR 0x1D, CHR 0x1E, CHR 0x1F])"

definition strip :: "string \<Rightarrow> string" where
  "strip s = rev (dropWhile is_space (rev (dropWhile is_space s)))"

definition check_element :: "'w env \<Rightarrow> locator \<Rightarrow> string \<Rightarrow> int \<Rightarrow> ('w, unit) action" where
  "check_element env locator err_post_message wait =
     try_except
       (if wait > 0 then perform (Until_present locator wait) (wait_until_present env locator wait)
        else raise_exn (AssertionError ''wait must be a positive number''))
       (\<lambda>e. case e of
          TimeoutException msg \<Rightarrow>
            (if strip err_post_message = [] then raise_exn e
             else raise_exn (TimeoutException (msg @ [CHR 0x0A] @ strip err_post_message)))
        | _ \<Rightarrow> raise_exn e)"

subsection \<open>\<^verbatim>\<open>_login\<close>\<close>

definition login_chunk :: string where
  "login_chunk = ''p_lt_PageContent_pageplaceholder_p_lt_zoneRight_CHOLogin_LoginControl_ctl00_Login1_''"

definition login :: "'w env \<Rightarrow> ('w, unit) action" where
  "login env h =
     (if is_logged_in h then (h, Inr ())
      else
        and_then (perform (Get ''https://thetanglinclub.clubhouseonline-e3.net/login.aspx'')
                    (driver_get env ''https://thetanglinclub.clubhouseonline-e3.net/login.aspx'')) (\<lambda>_.
        and_then (check_element env (ID, login_chunk @ ''UserName'')
                    ''Timeout encountered while loading login page'' 1) (\<lambda>_.
        and_then (perform (Find_element ID (login_chunk @ ''UserName''))
                    (driver_find_element env ID (login_chunk @ ''UserName''))) (\<lambda>login_input.
        and_then (\<lambda>h'. perform (Send_keys login_input (username h'))
                    (element_send_keys env login_input (username h')) h') (\<lambda>_.
        and_then (perform (Find_element ID (login_chunk @ ''Password''))
                    (driver_find_element env ID (login_chunk @ ''Password''))) (\<lambda>password_input.
        and_then (\<lambda>h'. perform (Send_keys password_input (password h'))
                    (element_send_keys env password_input (password h')) h') (\<lambda>_.
        and_then (perform (Find_element ID (login_chunk @ ''LoginButton''))
                    (driver_find_element env ID (login_chunk @ ''LoginButton''))) (\<lambda>login_button.
        and_then (perform (Click login_button) (element_click env login_button)) (\<lambda>_.
        and_then (check_element env (ID, ''p_lt_Header_MyProfilePages_divSignedIn'')
                    ''Could not identify div that ensures we are logged in'' 1) (\<lambda>_.
        (\<lambda>h'. (h'\<lparr>is_logged_in := True\<rparr>, Inr ()))))))))))) h)"

subsection \<open>\<^verbatim>\<open>_wait\<close> and \<^verbatim>\<open>_go_to_cms_page_and_wait\<close>\<close>

text \<open>
  A \<^verbatim>\<open>pd.Timestamp\<close> without time zone is a day number and a time of day.
  \<^verbatim>\<open>floor('d')\<close> clears the time of day, \<^verbatim>\<open>+ pd.offsets.Day(1)\<close> moves to the next
  day, and \<^verbatim>\<open>replace\<close> raises \<^verbatim>\<open>ValueError\<close> for a field out of range.
\<close>

definition floor_d :: "timestamp \<Rightarrow> timestamp" where
  "floor_d t = t\<lparr>ts_hour := 0, ts_minute := 0, ts_second := 0, ts_microsecond := 0\<rparr>"

definition plus_day :: "timestamp \<Rightarrow> int \<Rightarrow> timestamp" where
  "plus_day t n = t\<lparr>ts_day := ts_day t + n\<rparr>"

definition replace :: "timestamp \<Rightarrow> int \<Rightarrow> int \<Rightarrow> int \<Rightarrow> exn + timestamp" where
  "replace t hour minute second =
     (if 0 \<le> hour \<and> hour \<le> 23 \<and> 0 \<le> minute \<and> minute \<le> 59 \<and> 0 \<le> second \<and> second \<le> 59
      then Inr (t\<lparr>ts_hour := hour, ts_minute := minute, ts_second := second\<rparr>)
      else Inl (ValueError ''field out of range''))"

definition microseconds :: "timestamp \<Rightarrow> int" where
  "microseconds t =
     (((ts_day t * 24 + ts_hour t) * 60 + ts_minute t) * 60 + ts_second t) * 1000000
       + ts_microsecond t"

definition ts_less :: "timestamp \<Rightarrow> timestamp \<Rightarrow> bool" where
  "ts_less a b = (microseconds a < microseconds b)"

definition opening_time :: "timestamp \<Rightarrow> int \<Rightarrow> int \<Rightarrow> int \<Rightarrow> exn + timestamp" where
  \<comment> \<open>Lines 91 to 94, with \<open>hour\<close>, \<open>minute\<close>, \<open>second\<close> as parsed from \<open>till\<close> in line 88.\<close>
  "opening_time now hour minute second =
     (if ts_hour now \<ge> hour \<and> ts_minute now \<ge> minute \<and> ts_second now \<ge> second
         \<and> ts_microsecond now > 0
      then replace (plus_day (floor_d now) 1) hour minute second
      else replace (floor_d now) hour minute second)"

definition sleep_duration :: "timestamp \<Rightarrow> timestamp \<Rightarrow> int" where
  \<comment> \<open>\<^verbatim>\<open>np.ceil((opening_time - now).total_seconds())\<close>, in whole seconds.\<close>
  "sleep_duration opening now = (microseconds opening - microseconds now + 999999) div 1000000"

partial_function (option) wait_loop ::
  "'w env \<Rightarrow> timestamp \<Rightarrow> timestamp \<Rightarrow> 'w handler \<Rightarrow> ('w handler \<times> (exn + unit)) option" where
  "wait_loop env opening now h =
     (if ts_less now opening then
        (case perform (Sleep (sleep_duration opening now))
                (time_sleep env (sleep_duration opening now)) h of
           (h1, Inl e) \<Rightarrow> Some (h1, Inl e)
         | (h1, Inr _) \<Rightarrow>
             (case perform Now (timestamp_now env) h1 of
                (h2, Inl e) \<Rightarrow> Some (h2, Inl e)
              | (h2, Inr now') \<Rightarrow> wait_loop env opening now' h2))
      else Some (h, Inr ()))"

declare wait_loop.simps [code]

definition wait :: "'w env \<Rightarrow> int \<times> int \<times> int \<Rightarrow> 'w handler \<Rightarrow> ('w handler \<times> (exn + unit)) option" where
  \<comment> \<open>\<open>till\<close> is given as the three integers that line 88 reads from the string.\<close>
  "wait env till h =
     (case till of (hour, minute, second) \<Rightarrow>
        (case perform Now (timestamp_now env) h of
           (h1, Inl e) \<Rightarrow> Some (h1, Inl e)
         | (h1, Inr now) \<Rightarrow>
             (case opening_time now hour minute second of
                Inl e \<Rightarrow> Some (h1, Inl e)
              | Inr opening \<Rightarrow> wait_loop env opening now h1)))"

definition selector_css :: string where
  "selector_css = ''div.dropdown.ng-isolate-scope.ng-not-empty.ng-valid''"

definition cms_page :: string where
  "cms_page = ''https://thetanglinclub.clubhouseonline-e3.net/CMSModules/CHO/CourtManagement/CourtBooking.aspx''"

definition go_to_cms_page_and_wait ::
  "'w env \<Rightarrow> int \<times> int \<times> int \<Rightarrow> 'w handler \<Rightarrow> ('w handler \<times> (exn + unit)) option" where
  "go_to_cms_page_and_wait env till h =
     (case and_then (perform (Get cms_page) (driver_get env cms_page)) (\<lambda>_.
             check_element env (CSS_SELECTOR, selector_css)
               ''Could not load Tennis booking table page'' 1) h of
        (h1, Inl e) \<Rightarrow> Some (h1, Inl e)
      | (h1, Inr _) \<Rightarrow> wait env till h1)"

subsection \<open>\<^verbatim>\<open>_set_options\<close>\<close>

text \<open>
  The date reaches \<^verbatim>\<open>_set_options\<close> as a \<^verbatim>\<open>pd.Timestamp\<close>, of which the method uses two
  renderings, both computed by pandas: \<^verbatim>\<open>date.strftime('%b %#d')\<close> and
  \<^verbatim>\<open>f"{date:%Y-%m-%d}"\<close>.
\<close>

record date =
  strftime_b_d :: string
  strftime_Y_m_d :: string

definition check_load_okay :: "'w env \<Rightarrow> ('w, unit) action" where
  "check_load_okay env =
     check_element env (CSS_SELECTOR, ''div.container.slick-initialized.slick-slider'')
       ''Could not load schedule table'' 1"

definition option_li_selector :: string where
  "option_li_selector = ''li.ng-binding.ng-scope''"

fun select_date :: "'w env \<Rightarrow> date \<Rightarrow> element list \<Rightarrow> ('w, unit) action" where
  "select_date env date [] =
     raise_exn (RuntimeError (''Could not find date '' @ strftime_Y_m_d date @ '' in Tennis loading page''))"
| "select_date env date (e # es) =
     and_then (perform (Text e) (element_text env e)) (\<lambda>text.
       if text = strftime_b_d date
       then and_then (perform (Click e) (element_click env e)) (\<lambda>_. check_load_okay env)
       else select_date env date es)"

definition court_type_text :: "bool \<Rightarrow> string" where
  "court_type_text indoors =
     (if indoors then ''Tennis Courts - Indoor Tennis Court.''
      else ''Tennis Courts - Outdoor Tennis Court.'')"

text \<open>
  The test \<^verbatim>\<open>(indoors and x.text == Indoor) or (not indoors and x.text == Outdoor)\<close>
  reads \<^verbatim>\<open>x.text\<close> once whatever \<open>indoors\<close> is (\<^verbatim>\<open>and\<close>, \<^verbatim>\<open>or\<close> cut short), and
  compares it with \<open>court_type_text indoors\<close>.
\<close>

fun select_court_type :: "'w env \<Rightarrow> bool \<Rightarrow> element list \<Rightarrow> ('w, unit) action" where
  "select_court_type env indoors [] =
     raise_exn (RuntimeError (''Could not detect '' @ (if indoors then ''Indoors'' else ''Outdoors'')
                                @ '' option''))"
| "select_court_type env indoors (ee # ees) =
     and_then (perform (Text ee) (element_text env ee)) (\<lambda>text.
       if text = court_type_text indoors
       then and_then (perform (Click ee) (element_click env ee)) (\<lambda>_. check_load_okay env)
       else select_court_type env indoors ees)"

definition duration_text :: "int \<Rightarrow> string" where
  "duration_text duration = str_int duration @ '' hour'' @ (if duration > 1 then ''s'' else [])"

fun select_duration :: "'w env \<Rightarrow> int \<Rightarrow> element list \<Rightarrow> ('w, unit) action" where
  "select_duration env duration [] =
     raise_exn (RuntimeError (''Could not detect '' @ duration_text duration @ '' option''))"
| "select_duration env duration (ee # ees) =
     and_then (perform (Text ee) (element_text env ee)) (\<lambda>text.
       if text = duration_text duration
       then and_then (perform (Click ee) (element_click env ee)) (\<lambda>_.
            and_then (check_load_okay env) (\<lambda>_. print ''Here''))
       else select_duration env duration ees)"

definition set_dropdown :: "'w env \<Rightarrow> bool \<Rightarrow> int \<Rightarrow> element \<Rightarrow> ('w, unit) action" where
  \<comment> \<open>The body of the loop of lines 121 to 156 for one dropdown \<open>e\<close>; \<open>Inr ()\<close> is \<^verbatim>\<open>continue\<close>
      or the end of the body.\<close>
  "set_dropdown env indoors duration e =
     and_then (perform (Text e) (element_text env e)) (\<lambda>subject.
       if subject \<in> set [''Tennis Courts - Outdoor Tennis Court.'',
                           ''Tennis Courts - Indoor Tennis Court.'',
                           ''Squash Courts - Singles Squash Courts'',
                           ''Squash Courts - Doubles Squash Courts'']
       then
         and_then (perform (Text e) (element_text env e)) (\<lambda>text.
           if text = court_type_text indoors then return_val ()
           else
             and_then (perform (Click e) (element_click env e)) (\<lambda>_.
             and_then (check_element env (CSS_SELECTOR, selector_css @ ''.open'')
                         ''Could not open court type selector'' 1) (\<lambda>_.
             and_then (perform (Find_elements CSS_SELECTOR option_li_selector)
                         (driver_find_elements env CSS_SELECTOR option_li_selector))
               (select_court_type env indoors))))
       else if subject \<in> set [''1 hour'', ''2 hours'']
       then
         and_then (perform (Text e) (element_text env e)) (\<lambda>text.
           if text = duration_text duration then return_val ()
           else
             and_then (perform (Click e) (element_click env e)) (\<lambda>_.
             and_then (check_element env (CSS_SELECTOR, selector_css @ ''.open'') [] 1) (\<lambda>_.
             and_then (perform (Find_elements CSS_SELECTOR option_li_selector)
                         (driver_find_elements env CSS_SELECTOR option_li_selector))
               (select_duration env duration))))
       else return_val ())"

fun set_dropdowns :: "'w env \<Rightarrow> bool \<Rightarrow> int \<Rightarrow> element list \<Rightarrow> ('w, unit) action" where
  "set_dropdowns env indoors duration [] = return_val ()"
| "set_dropdowns env indoors duration (e # es) =
     and_then (set_dropdown env indoors duration e) (\<lambda>_. set_dropdowns env indoors duration es)"

definition set_options :: "'w env \<Rightarrow> date \<Rightarrow> bool \<Rightarrow> int \<Rightarrow> ('w, unit) action" where
  "set_options env date indoors duration =
     and_then (perform (Find_elements CSS_SELECTOR ''div.date.ng-binding'')
                 (driver_find_elements env CSS_SELECTOR ''div.date.ng-binding'')) (\<lambda>dates.
     and_then (select_date env date dates) (\<lambda>_.
     and_then (perform (Find_elements CSS_SELECTOR ''a.dropdown-display.ng-binding'')
                 (driver_find_elements env CSS_SELECTOR ''a.dropdown-display.ng-binding''))
       (set_dropdowns env indoors duration)))"

subsection \<open>\<^verbatim>\<open>_reserve_time\<close>\<close>

definition book_now_css :: string where
  "book_now_css = ''a.btn.btn-primary.ng-binding''"

fun elements_with_text :: "'w env \<Rightarrow> string \<Rightarrow> element list \<Rightarrow> ('w, element list) action" where
  \<comment> \<open>The list comprehension of line 168: \<^verbatim>\<open>e.text\<close> is read for each element found.\<close>
  "elements_with_text env wanted [] = return_val []"
| "elements_with_text env wanted (e # es) =
     and_then (perform (Text e) (element_text env e)) (\<lambda>text.
     and_then (elements_with_text env wanted es) (\<lambda>rest.
       return_val (if text = wanted then e # rest else rest)))"

definition book_element :: "'w env \<Rightarrow> element \<Rightarrow> ('w, unit) action" where
  \<comment> \<open>Lines 172 to 178, the statements of the \<^verbatim>\<open>try\<close> block before \<^verbatim>\<open>return True\<close>.\<close>
  "book_element env e =
     and_then (perform (Click e) (element_click env e)) (\<lambda>_.
     and_then (check_element env (CSS_SELECTOR, book_now_css)
                 ''Could not find 'Book Now' button, this is CRITICAL'' 1) (\<lambda>_.
     and_then (perform (Find_element CSS_SELECTOR book_now_css)
                 (driver_find_element env CSS_SELECTOR book_now_css)) (\<lambda>book_now_button.
     and_then (perform (Click book_now_button) (element_click env book_now_button)) (\<lambda>_.
       check_element env (CSS_SELECTOR, ''h1.banner-title.ng-scope'')
         ''Could not locate success banner! THIS IS CRITICAL TOO'' 1))))"

fun reserve_elements :: "'w env \<Rightarrow> element list \<Rightarrow> ('w, bool) action" where
  \<comment> \<open>The loop of lines 170 to 186: the bare \<^verbatim>\<open>except\<close> catches every exception.\<close>
  "reserve_elements env [] = return_val False"
| "reserve_elements env (e # es) =
     try_except (and_then (book_element env e) (\<lambda>_. return_val True))
       (\<lambda>_. reserve_elements env es)"

definition reserve_time :: "'w env \<Rightarrow> int \<Rightarrow> ('w, bool) action" where
  "reserve_time env time =
     and_then (log_event (Reserve_time time)) (\<lambda>_.
     and_then (perform (Find_elements CSS_SELECTOR ''div.start-time.ng-binding.ng-scope'')
                 (driver_find_elements env CSS_SELECTOR ''div.start-time.ng-binding.ng-scope'')) (\<lambda>found.
     and_then (elements_with_text env (time_text time) found) (reserve_elements env)))"

subsection \<open>\<^verbatim>\<open>make_reservations\<close>\<close>

definition success_message :: "int \<Rightarrow> string" where
  \<comment> \<open>Line 40: the literal has no \<^verbatim>\<open>f\<close> prefix, so \<open>t\<close> is not used.\<close>
  "success_message t =
     ''Made a reservation at time {t:02d}:00. Check your email for more information''"

fun join :: "string \<Rightarrow> string list \<Rightarrow> string" where
  "join sep [] = []"
| "join sep [x] = x"
| "join sep (x # y # ys) = x @ sep @ join sep (y # ys)"

definition failure_message :: "int list \<Rightarrow> string" where
  \<comment> \<open>Line 47.\<close>
  "failure_message failures =
     ''Did not manage to book times: '' @ [CHR 0x0A]
       @ join [CHR 0x0A] (map (\<lambda>t. ''  - '' @ format_02d t @ '':00'') failures)"

datatype attempt = Booked | Not_booked | Raised

definition attempt_time :: "'w env \<Rightarrow> int \<Rightarrow> ('w, attempt) action" where
  \<comment> \<open>The \<^verbatim>\<open>try\<close> statement of lines 37 to 44 for one hour. \<open>Booked\<close>: the method returns
      in line 41; \<open>Raised\<close>: the handler of line 43 ran and appends \<open>t\<close> to the failures.\<close>
  "attempt_time env t =
     try_except
       (and_then (reserve_time env t) (\<lambda>success.
          if success then and_then (print (success_message t)) (\<lambda>_. return_val Booked)
          else return_val Not_booked))
       (\<lambda>_. return_val Raised)"

fun reserve_times :: "'w env \<Rightarrow> int list \<Rightarrow> int list \<Rightarrow> ('w, int list option) action" where
  \<comment> \<open>The loop of lines 36 to 44 from the hours left and the failures so far. \<open>None\<close>: the
      method returned in line 41; \<open>Some failures\<close>: the loop ended.\<close>
  "reserve_times env [] failures = return_val (Some failures)"
| "reserve_times env (t # ts) failures =
     and_then (attempt_time env t) (\<lambda>a.
       case a of
         Booked \<Rightarrow> return_val None
       | Not_booked \<Rightarrow> reserve_times env ts failures
       | Raised \<Rightarrow> reserve_times env ts (failures @ [t]))"

definition book :: "'w env \<Rightarrow> int list \<Rightarrow> ('w, unit) action" where
  \<comment> \<open>Lines 35 to 47.\<close>
  "book env candidate_times =
     and_then (reserve_times env candidate_times []) (\<lambda>r.
       case r of
         None \<Rightarrow> return_val ()
       | Some failures \<Rightarrow>
           if length failures > 0 then print (failure_message failures) else return_val ())"

definition prepare ::
  "'w env \<Rightarrow> date \<Rightarrow> bool \<Rightarrow> int \<Rightarrow> 'w handler \<Rightarrow> ('w handler \<times> (exn + unit)) option" where
  \<comment> \<open>Lines 28 to 33; \<open>till\<close> is \<^verbatim>\<open>'06:59:56'\<close>. The date comes in as pandas has read it
      (\<^verbatim>\<open>pd.Timestamp(date)\<close> in line 33).\<close>
  "prepare env date indoor duration h =
     (if duration \<in> set [1, 2] then
        (case login env h of
           (h1, Inl e) \<Rightarrow> Some (h1, Inl e)
         | (h1, Inr _) \<Rightarrow>
             (case go_to_cms_page_and_wait env (6, 59, 56) h1 of
                None \<Rightarrow> None
              | Some (h2, Inl e) \<Rightarrow> Some (h2, Inl e)
              | Some (h2, Inr _) \<Rightarrow> Some (set_options env date indoor duration h2)))
      else Some (h, Inl (AssertionError ''duration can only be 1 or 2 hours'')))"

definition make_reservations ::
  "'w env \<Rightarrow> date \<Rightarrow> bool \<Rightarrow> int \<Rightarrow> int list \<Rightarrow> 'w handler \<Rightarrow> ('w handler \<times> (exn + unit)) option" where
  "make_reservations env date indoor duration candidate_times h =
     (case prepare env date indoor duration h of
        None \<Rightarrow> None
      | Some (h1, Inl e) \<Rightarrow> Some (h1, Inl e)
      | Some (h1, Inr _) \<Rightarrow> Some (book env candidate_times h1))"

section \<open>A small site to run the handler on\<close>

text \<open>
  A stand-in for the club's site, used to run the model on concrete inputs. The page shows
  one date cell (element 10), the court-type and duration dropdowns (20, 21), their four
  options (30 to 33), a Book Now button (40) and one start-time box for each label of
  \<open>slot_labels\<close> (100, 101, ...). Reading the text of an element of \<open>stale\<close> raises, and
  so does a click on an element of \<open>broken\<close>; the success banner appears when the
  start-time box clicked last is in \<open>confirming\<close>.
\<close>

record site =
  clock :: timestamp
  date_shown :: string
  court_shown :: string
  duration_shown :: string
  slot_labels :: "string list"
  stale :: "element list"
  broken :: "element list"
  confirming :: "element list"
  last_slot :: "element option"

definition of_microseconds :: "int \<Rightarrow> timestamp" where
  "of_microseconds m =
     \<lparr>ts_day = m div 86400000000, ts_hour = m div 3600000000 mod 24,
      ts_minute = m div 60000000 mod 60, ts_second = m div 1000000 mod 60,
      ts_microsecond = m mod 1000000\<rparr>"

definition site_find_element :: "By \<Rightarrow> string \<Rightarrow> site \<Rightarrow> site \<times> (exn + element)" where
  "site_find_element by' sel w =
     (if sel = login_chunk @ ''UserName'' then (w, Inr 1)
      else if sel = login_chunk @ ''Password'' then (w, Inr 2)
      else if sel = login_chunk @ ''LoginButton'' then (w, Inr 3)
      else if sel = book_now_css then (w, Inr 40)
      else (w, Inl (WebDriverException ''no such element'')))"

definition site_find_elements :: "By \<Rightarrow> string \<Rightarrow> site \<Rightarrow> site \<times> (exn + element list)" where
  "site_find_elements by' sel w =
     (if sel = ''div.date.ng-binding'' then (w, Inr [10])
      else if sel = ''a.dropdown-display.ng-binding'' then (w, Inr [20, 21])
      else if sel = option_li_selector then (w, Inr [30, 31, 32, 33])
      else if sel = ''div.start-time.ng-binding.ng-scope''
      then (w, Inr (map (\<lambda>i. 100 + i) [0 ..< length (slot_labels w)]))
      else (w, Inr []))"

definition site_text :: "element \<Rightarrow> site \<Rightarrow> site \<times> (exn + string)" where
  "site_text e w =
     (if e \<in> set (stale w) then (w, Inl (WebDriverException ''stale element reference''))
      else if e = 10 then (w, Inr (date_shown w))
      else if e = 20 then (w, Inr (court_shown w))
      else if e = 21 then (w, Inr (duration_shown w))
      else if e = 30 then (w, Inr ''Tennis Courts - Indoor Tennis Court.'')
      else if e = 31 then (w, Inr ''Tennis Courts - Outdoor Tennis Court.'')
      else if e = 32 then (w, Inr ''1 hour'')
      else if e = 33 then (w, Inr ''2 hours'')
      else if 100 \<le> e \<and> e < 100 + length (slot_labels w) then (w, Inr (slot_labels w ! (e - 100)))
      else (w, Inr []))"

definition site_click :: "element \<Rightarrow> site \<Rightarrow> site \<times> (exn + unit)" where
  "site_click e w =
     (if e \<in> set (broken w) then (w, Inl (WebDriverException ''element click intercepted''))
      else if e = 30 then (w\<lparr>court_shown := ''Tennis Courts - Indoor Tennis Court.''\<rparr>, Inr ())
      else if e = 31 then (w\<lparr>court_shown := ''Tennis Courts - Outdoor Tennis Court.''\<rparr>, Inr ())
      else if e = 32 then (w\<lparr>duration_shown := ''1 hour''\<rparr>, Inr ())
      else if e = 33 then (w\<lparr>duration_shown := ''2 hours''\<rparr>, Inr ())
      else if 100 \<le> e then (w\<lparr>last_slot := Some e\<rparr>, Inr ())
      else (w, Inr ()))"

definition site_until_present :: "locator \<Rightarrow> int \<Rightarrow> site \<Rightarrow> site \<times> (exn + unit)" where
  "site_until_present loc seconds w =
     (if loc = (CSS_SELECTOR, ''h1.banner-title.ng-scope'')
      then (case last_slot w of
              None \<Rightarrow> (w, Inl (TimeoutException ''Message: ''))
            | Some e \<Rightarrow> if e \<in> set (confirming w) then (w, Inr ())
                        else (w, Inl (TimeoutException ''Message: '')))
      else (w, Inr ()))"

definition site_env :: "site env" where
  "site_env =
     \<lparr>driver_get = (\<lambda>url w. (w, Inr ())),
      driver_find_element = site_find_element,
      driver_find_elements = site_find_elements,
      element_text = site_text,
      element_click = site_click,
      element_send_keys = (\<lambda>e keys w. (w, Inr ())),
      wait_until_present = site_until_present,
      timestamp_now = (\<lambda>w. (w, Inr (clock w))),
      time_sleep = (\<lambda>n w. (w\<lparr>clock := of_microseconds (microseconds (clock w) + n * 1000000)\<rparr>, Inr ()))\<rparr>"

definition morning_site ::
  "string list \<Rightarrow> element list \<Rightarrow> element list \<Rightarrow> element list \<Rightarrow> site" where
  \<comment> \<open>The page at 06:59:50 of day 0, showing June 1, outdoor courts and two hours.\<close>
  "morning_site labels stale_elements broken_elements confirming_elements =
     \<lparr>clock = \<lparr>ts_day = 0, ts_hour = 6, ts_minute = 59, ts_second = 50, ts_microsecond = 250000\<rparr>,
      date_shown = ''Jun 1'',
      court_shown = ''Tennis Courts - Outdoor Tennis Court.'',
      duration_shown = ''2 hours'',
      slot_labels = labels,
      stale = stale_elements,
      broken = broken_elements,
      confirming = confirming_elements,
      last_slot = None\<rparr>"

definition new_handler :: "'w \<Rightarrow> string \<Rightarrow> string \<Rightarrow> 'w handler" where
  \<comment> \<open>\<^verbatim>\<open>__init__\<close>, on a browser already started.\<close>
  "new_handler w user pass =
     \<lparr>driver = w, username = user, password = pass, is_logged_in = False,
      stdout = [], trace = []\<rparr>"

definition june_1 :: date where
  "june_1 = \<lparr>strftime_b_d = ''Jun 1'', strftime_Y_m_d = ''2024-06-01''\<rparr>"

fun attempted :: "event list \<Rightarrow> int list" where
  \<comment> \<open>The hours for which \<^verbatim>\<open>_reserve_time\<close> was entered, in order.\<close>
  "attempted [] = []"
| "attempted (Reserve_time t # evs) = t # attempted evs"
| "attempted (ev # evs) = attempted evs"

definition quiet :: "('w, 'a) action \<Rightarrow> bool" where
  \<comment> \<open>An action that enters \<^verbatim>\<open>_reserve_time\<close> for no hour.\<close>
  "quiet m = (\<forall>h. attempted (trace (fst (m h))) = attempted (trace h))"

definition three_slots :: "string list" where
  "three_slots = [''7:00 AM'', ''8:00 AM'', ''9:00 AM'']"

definition visitor :: "site \<Rightarrow> site handler" where
  "visitor w = new_handler w ''member'' ''secret''"

section \<open>Properties of the hour label\<close>

text \<open>
  Claim C4. The label of \<^verbatim>\<open>_reserve_time\<close> is \<open>1:00 AM\<close> for hour 1, \<open>12:00 PM\<close> for 12,
  \<open>1:00 PM\<close> for 13 and \<open>11:00 PM\<close> for 23; for an hour \<open>h\<close> from 1 to 11 it is the decimal
  numeral of \<open>h\<close> followed by \<open>:00 AM\<close>, for 12 it is \<open>12:00 PM\<close>, and for an hour from 13
  to 23 it is the numeral of \<open>h - 12\<close> followed by \<open>:00 PM\<close>. The labels of all hours from
  1 to 23 are listed as well.
\<close>

theorem time_text_labels:
  "time_text 1 = ''1:00 AM'' \<and> time_text 12 = ''12:00 PM'' \<and> time_text 13 = ''1:00 PM''
   \<and> time_text 23 = ''11:00 PM''
   \<and> (1 \<le> h \<and> h \<le> 11 \<longrightarrow> time_text h = str_int h @ '':00 AM'')
   \<and> (h = 12 \<longrightarrow> time_text h = ''12:00 PM'')
   \<and> (13 \<le> h \<and> h \<le> 23 \<longrightarrow> time_text h = str_int (h - 12) @ '':00 PM'')
   \<and> map time_text [1, 2, 3, 4, 5, 6, 7, 8, 9, 10, 11, 12]
       = [''1:00 AM'', ''2:00 AM'', ''3:00 AM'', ''4:00 AM'', ''5:00 AM'', ''6:00 AM'',
          ''7:00 AM'', ''8:00 AM'', ''9:00 AM'', ''10:00 AM'', ''11:00 AM'', ''12:00 PM'']
   \<and> map time_text [13, 14, 15, 16, 17, 18, 19, 20, 21, 22, 23]
       = [''1:00 PM'', ''2:00 PM'', ''3:00 PM'', ''4:00 PM'', ''5:00 PM'', ''6:00 PM'',
          ''7:00 PM'', ''8:00 PM'', ''9:00 PM'', ''10:00 PM'', ''11:00 PM'']"
proof -
  have concrete: "time_text 1 = ''1:00 AM''" "time_text 12 = ''12:00 PM''"
    "time_text 13 = ''1:00 PM''" "time_text 23 = ''11:00 PM''"
    by (simp_all add: time_text_def str_int_def str_nat.simps digit_char_def)
  have am: "map time_text [1, 2, 3, 4, 5, 6, 7, 8, 9, 10, 11, 12]
       = [''1:00 AM'', ''2:00 AM'', ''3:00 AM'', ''4:00 AM'', ''5:00 AM'', ''6:00 AM'',
          ''7:00 AM'', ''8:00 AM'', ''9:00 AM'', ''10:00 AM'', ''11:00 AM'', ''12:00 PM'']"
    by (simp add: time_text_def str_int_def str_nat.simps digit_char_def)
  have pm: "map time_text [13, 14, 15, 16, 17, 18, 19, 20, 21, 22, 23]
       = [''1:00 PM'', ''2:00 PM'', ''3:00 PM'', ''4:00 PM'', ''5:00 PM'', ''6:00 PM'',
          ''7:00 PM'', ''8:00 PM'', ''9:00 PM'', ''10:00 PM'', ''11:00 PM'']"
    by (simp add: time_text_def str_int_def str_nat.simps digit_char_def)
  have modulus: "h mod 12 = h - 12" if "13 \<le> h" "h \<le> 23"
    using that by presburger
  have general: "(1 \<le> h \<and> h \<le> 11 \<longrightarrow> time_text h = str_int h @ '':00 AM'')
      \<and> (h = 12 \<longrightarrow> time_text h = ''12:00 PM'')
      \<and> (13 \<le> h \<and> h \<le> 23 \<longrightarrow> time_text h = str_int (h - 12) @ '':00 PM'')"
    using modulus by (simp add: time_text_def)
  show ?thesis using concrete am pm general by blast
qed

theorem time_text_labels_witness:
  "(1::int) \<le> 5 \<and> (5::int) \<le> 11 \<and> time_text 5 = ''5:00 AM''
   \<and> (13::int) \<le> 17 \<and> (17::int) \<le> 23 \<and> time_text 17 = ''5:00 PM''
   \<and> time_text 12 = ''12:00 PM''"
  using time_text_labels [of 5] time_text_labels [of 17] time_text_labels [of 12]
  by (simp add: str_int_def str_nat.simps digit_char_def)

text \<open>
  The list comprehension of line 168, on a page whose texts are read without effect on it:
  it reads the text of each element found, in order, and keeps the elements whose text is
  the wanted label.
\<close>

lemma elements_with_text_filter:
  assumes "\<forall>e\<in>set es. element_text env e (driver h) = (driver h, Inr (label e))"
  shows "elements_with_text env wanted es h
           = (h\<lparr>trace := trace h @ map Text es\<rparr>, Inr (filter (\<lambda>e. label e = wanted) es))"
  using assms
proof (induction es arbitrary: h)
  case Nil
  show ?case by (simp add: return_val_def)
next
  case (Cons e es)
  let ?h1 = "h\<lparr>trace := trace h @ [Text e]\<rparr>"
  have read: "perform (Text e) (element_text env e) h = (?h1, Inr (label e))"
    using Cons.prems by (simp add: perform_def)
  have "\<forall>x\<in>set es. element_text env x (driver ?h1) = (driver ?h1, Inr (label x))"
    using Cons.prems by simp
  from Cons.IH [OF this]
  have rest: "elements_with_text env wanted es ?h1
      = (h\<lparr>trace := trace h @ map Text (e # es)\<rparr>, Inr (filter (\<lambda>x. label x = wanted) es))"
    by simp
  show ?case
    by (simp add: and_then_def read rest return_val_def)
qed

text \<open>
  Claim C10. For hour 0 the label is \<open>0:00 AM\<close>: midnight takes the branch \<open>time < 12\<close>, and
  the start-time boxes are matched against that text. When the page answers the search
  with the boxes \<open>found\<close> and box \<open>e\<close> shows \<open>label e\<close>, \<^verbatim>\<open>_reserve_time(0)\<close> reads every box
  and goes through exactly the boxes whose label is \<open>0:00 AM\<close>. On a page that shows
  \<open>12:00 AM\<close>, \<open>0:00 AM\<close> and \<open>0:00 PM\<close>, all three bookable, hour 0 clicks the second box
  only and books it.
\<close>

theorem time_text_midnight:
  "time_text 0 = ''0:00 AM''
   \<and> (driver_find_elements env CSS_SELECTOR ''div.start-time.ng-binding.ng-scope'' (driver h)
          = (w, Inr found)
        \<and> (\<forall>e\<in>set found. element_text env e w = (w, Inr (label e)))
        \<longrightarrow> reserve_time env 0 h
            = reserve_elements env (filter (\<lambda>e. label e = ''0:00 AM'') found)
                (h\<lparr>driver := w,
                   trace := trace h @ Reserve_time 0
                     # Find_elements CSS_SELECTOR ''div.start-time.ng-binding.ng-scope''
                     # map Text found\<rparr>))
   \<and> (case reserve_time site_env 0
              (visitor (morning_site [''12:00 AM'', ''0:00 AM'', ''0:00 PM''] [] [] [100, 101, 102])) of
         (h', r) \<Rightarrow> (trace h', last_slot (driver h'), r))
       = ([Reserve_time 0, Find_elements CSS_SELECTOR ''div.start-time.ng-binding.ng-scope'',
           Text 100, Text 101, Text 102, Click 101,
           Until_present (CSS_SELECTOR, ''a.btn.btn-primary.ng-binding'') 1,
           Find_element CSS_SELECTOR ''a.btn.btn-primary.ng-binding'', Click 40,
           Until_present (CSS_SELECTOR, ''h1.banner-title.ng-scope'') 1],
          Some 101, Inr True)"
proof (intro conjI impI)
  show label: "time_text 0 = ''0:00 AM''"
    by (simp add: time_text_def str_int_def str_nat.simps digit_char_def)
  show "(case reserve_time site_env 0
              (visitor (morning_site [''12:00 AM'', ''0:00 AM'', ''0:00 PM''] [] [] [100, 101, 102])) of
         (h', r) \<Rightarrow> (trace h', last_slot (driver h'), r))
       = ([Reserve_time 0, Find_elements CSS_SELECTOR ''div.start-time.ng-binding.ng-scope'',
           Text 100, Text 101, Text 102, Click 101,
           Until_present (CSS_SELECTOR, ''a.btn.btn-primary.ng-binding'') 1,
           Find_element CSS_SELECTOR ''a.btn.btn-primary.ng-binding'', Click 40,
           Until_present (CSS_SELECTOR, ''h1.banner-title.ng-scope'') 1],
          Some 101, Inr True)"
    by code_simp
  assume a: "driver_find_elements env CSS_SELECTOR ''div.start-time.ng-binding.ng-scope'' (driver h)
          = (w, Inr found)
        \<and> (\<forall>e\<in>set found. element_text env e w = (w, Inr (label e)))"
  let ?sel = "''div.start-time.ng-binding.ng-scope''"
  let ?h1 = "h\<lparr>trace := trace h @ [Reserve_time 0]\<rparr>"
  let ?h2 = "h\<lparr>driver := w, trace := trace h @ [Reserve_time 0, Find_elements CSS_SELECTOR ?sel]\<rparr>"
  have find: "perform (Find_elements CSS_SELECTOR ?sel) (driver_find_elements env CSS_SELECTOR ?sel) ?h1
      = (?h2, Inr found)"
    using a by (simp add: perform_def)
  have "\<forall>e\<in>set found. element_text env e (driver ?h2) = (driver ?h2, Inr (label e))"
    using a by simp
  from elements_with_text_filter [OF this, of "''0:00 AM''"]
  have kept: "elements_with_text env ''0:00 AM'' found ?h2
      = (h\<lparr>driver := w, trace := trace h @ Reserve_time 0 # Find_elements CSS_SELECTOR ?sel # map Text found\<rparr>,
         Inr (filter (\<lambda>e. label e = ''0:00 AM'') found))"
    by simp
  show "reserve_time env 0 h
            = reserve_elements env (filter (\<lambda>e. label e = ''0:00 AM'') found)
                (h\<lparr>driver := w,
                   trace := trace h @ Reserve_time 0
                     # Find_elements CSS_SELECTOR ''div.start-time.ng-binding.ng-scope''
                     # map Text found\<rparr>)"
    unfolding reserve_time_def label
    by (simp add: and_then_def log_event_def find kept)
qed

theorem time_text_midnight_witness:
  "reserve_time site_env 0
      (visitor (morning_site [''12:00 AM'', ''0:00 AM'', ''0:00 PM''] [] [] [100, 101, 102]))
   = reserve_elements site_env [101]
      ((visitor (morning_site [''12:00 AM'', ''0:00 AM'', ''0:00 PM''] [] [] [100, 101, 102]))
         \<lparr>trace := [Reserve_time 0, Find_elements CSS_SELECTOR ''div.start-time.ng-binding.ng-scope'',
                    Text 100, Text 101, Text 102]\<rparr>)"
proof -
  let ?w = "morning_site [''12:00 AM'', ''0:00 AM'', ''0:00 PM''] [] [] [100, 101, 102]"
  let ?label = "\<lambda>e. [''12:00 AM'', ''0:00 AM'', ''0:00 PM''] ! (e - 100)"
  have d: "driver (visitor ?w) = ?w" and t: "trace (visitor ?w) = []"
    by (simp_all add: visitor_def new_handler_def)
  have found: "driver_find_elements site_env CSS_SELECTOR ''div.start-time.ng-binding.ng-scope''
      (driver (visitor ?w)) = (?w, Inr [100, 101, 102])"
    by code_simp
  have texts: "\<forall>e\<in>set [100, 101, 102]. element_text site_env e ?w = (?w, Inr (?label e))"
    by (simp add: site_env_def site_text_def morning_site_def)
  have upd: "(visitor ?w)\<lparr>driver := ?w, trace := tr\<rparr> = (visitor ?w)\<lparr>trace := tr\<rparr>" for tr
    by (simp add: visitor_def new_handler_def)
  from time_text_midnight [of site_env "visitor ?w" ?w "[100, 101, 102]" ?label] found texts
  show ?thesis by (simp add: t upd)
qed

section \<open>Login\<close>

text \<open>
  Claim C9. When the logged-in flag is set, \<^verbatim>\<open>_login\<close> returns at once: the handler comes
  back as it was, so the browser was not called (the trace is the same), nothing was
  printed and no field changed.
\<close>

theorem login_when_logged_in: "is_logged_in h \<Longrightarrow> login env h = (h, Inr ())"
  by (simp add: login_def)

theorem login_when_logged_in_witness:
  "is_logged_in ((visitor (morning_site three_slots [] [] []))\<lparr>is_logged_in := True\<rparr>)
   \<and> login site_env ((visitor (morning_site three_slots [] [] []))\<lparr>is_logged_in := True\<rparr>)
       = ((visitor (morning_site three_slots [] [] []))\<lparr>is_logged_in := True\<rparr>, Inr ())"
  using login_when_logged_in
    [of "(visitor (morning_site three_slots [] [] []))\<lparr>is_logged_in := True\<rparr>" site_env]
  by simp

text \<open>
  A login that returns normally leaves the flag set, so a second call changes nothing.
\<close>

lemma and_then_post:
  assumes "and_then m f h = (h', Inr y)"
    and "\<And>x h1. f x h1 = (h', Inr y) \<Longrightarrow> P"
  shows P
  using assms by (auto simp: and_then_def split: prod.splits sum.splits)

lemma login_sets_flag:
  assumes "login env h = (h', Inr u)"
  shows "is_logged_in h'"
proof (cases "is_logged_in h")
  case True
  then show ?thesis using assms by (simp add: login_def)
next
  case False
  from assms have "and_then (perform (Get ''https://thetanglinclub.clubhouseonline-e3.net/login.aspx'')
                    (driver_get env ''https://thetanglinclub.clubhouseonline-e3.net/login.aspx'')) (\<lambda>_.
        and_then (check_element env (ID, login_chunk @ ''UserName'')
                    ''Timeout encountered while loading login page'' 1) (\<lambda>_.
        and_then (perform (Find_element ID (login_chunk @ ''UserName''))
                    (driver_find_element env ID (login_chunk @ ''UserName''))) (\<lambda>login_input.
        and_then (\<lambda>h'. perform (Send_keys login_input (username h'))
                    (element_send_keys env login_input (username h')) h') (\<lambda>_.
        and_then (perform (Find_element ID (login_chunk @ ''Password''))
                    (driver_find_element env ID (login_chunk @ ''Password''))) (\<lambda>password_input.
        and_then (\<lambda>h'. perform (Send_keys password_input (password h'))
                    (element_send_keys env password_input (password h')) h') (\<lambda>_.
        and_then (perform (Find_element ID (login_chunk @ ''LoginButton''))
                    (driver_find_element env ID (login_chunk @ ''LoginButton''))) (\<lambda>login_button.
        and_then (perform (Click login_button) (element_click env login_button)) (\<lambda>_.
        and_then (check_element env (ID, ''p_lt_Header_MyProfilePages_divSignedIn'')
                    ''Could not identify div that ensures we are logged in'' 1) (\<lambda>_.
        (\<lambda>h'. (h'\<lparr>is_logged_in := True\<rparr>, Inr ()))))))))))) h = (h', Inr u)"
    unfolding login_def using False by (simp only: if_False)
  then show ?thesis
    by (elim and_then_post) auto
qed

lemma login_twice: "login env h = (h', Inr u) \<Longrightarrow> login env h' = (h', Inr ())"
  using login_sets_flag [of env h h' u] by (simp add: login_def)

section \<open>The loop over the candidate times\<close>

lemma attempted_append: "attempted (xs @ ys) = attempted xs @ attempted ys"
  by (induction xs rule: attempted.induct) simp_all

lemma quiet_return_val: "quiet (return_val x)"
  by (simp add: quiet_def return_val_def)

lemma quiet_raise_exn: "quiet (raise_exn e)"
  by (simp add: quiet_def raise_exn_def)

lemma quiet_print: "quiet (print line)"
  by (simp add: quiet_def print_def)

lemma quiet_perform: "attempted [ev] = [] \<Longrightarrow> quiet (perform ev operation)"
  by (simp add: quiet_def perform_def attempted_append split: prod.split)

lemma quiet_and_then: "quiet m \<Longrightarrow> (\<And>x. quiet (f x)) \<Longrightarrow> quiet (and_then m f)"
  unfolding quiet_def and_then_def
  by (auto split: prod.split sum.split) (metis fst_conv)+

lemma quiet_try_except: "quiet m \<Longrightarrow> (\<And>e. quiet (f e)) \<Longrightarrow> quiet (try_except m f)"
  unfolding quiet_def try_except_def
  by (auto split: prod.split sum.split) (metis fst_conv)+

lemma quiet_if: "quiet a \<Longrightarrow> quiet b \<Longrightarrow> quiet (if c then a else b)"
  by simp

lemma quiet_check_element: "quiet (check_element env locator msg seconds)"
  unfolding check_element_def
  by (intro quiet_try_except quiet_if quiet_perform quiet_raise_exn)
     (simp_all add: quiet_raise_exn split: exn.split)

lemma quiet_book_element: "quiet (book_element env e)"
  unfolding book_element_def
  by (intro quiet_and_then quiet_perform quiet_check_element) simp_all

lemma quiet_reserve_elements: "quiet (reserve_elements env es)"
  by (induction es) (simp_all add: quiet_return_val quiet_try_except quiet_and_then quiet_book_element)

lemma quiet_elements_with_text: "quiet (elements_with_text env wanted es)"
  by (induction es) (simp_all add: quiet_return_val quiet_and_then quiet_perform)

lemma and_then_log_event:
  "and_then (log_event ev) f h = f () (h\<lparr>trace := trace h @ [ev]\<rparr>)"
  by (simp add: and_then_def log_event_def)

lemma reserve_time_attempted:
  "attempted (trace (fst (reserve_time env t h))) = attempted (trace h) @ [t]"
proof -
  let ?rest = "and_then (perform (Find_elements CSS_SELECTOR ''div.start-time.ng-binding.ng-scope'')
                 (driver_find_elements env CSS_SELECTOR ''div.start-time.ng-binding.ng-scope'')) (\<lambda>found.
     and_then (elements_with_text env (time_text t) found) (reserve_elements env))"
  have "quiet ?rest"
    by (intro quiet_and_then quiet_perform quiet_elements_with_text quiet_reserve_elements) simp
  then have "attempted (trace (fst (?rest h'))) = attempted (trace h')" for h'
    by (simp add: quiet_def)
  from this [of "h\<lparr>trace := trace h @ [Reserve_time t]\<rparr>"] show ?thesis
    by (simp add: reserve_time_def and_then_log_event attempted_append)
qed

lemma attempt_time_returns: "\<exists>h' a. attempt_time env t h = (h', Inr a)"
  by (auto simp: attempt_time_def try_except_def and_then_def return_val_def print_def
      split: prod.split sum.split)

lemma attempt_time_attempted:
  "attempted (trace (fst (attempt_time env t h))) = attempted (trace h) @ [t]"
  using reserve_time_attempted [of env t h]
  by (auto simp: attempt_time_def try_except_def and_then_def return_val_def print_def
      split: prod.split sum.split)

lemma reserve_times_returns: "\<exists>h' r. reserve_times env ts failures h = (h', Inr r)"
proof (induction ts arbitrary: failures h)
  case Nil
  show ?case by (simp add: return_val_def)
next
  case (Cons t ts)
  obtain h1 a where a: "attempt_time env t h = (h1, Inr a)"
    using attempt_time_returns by blast
  show ?case using Cons.IH a
    by (cases a) (simp_all add: and_then_def return_val_def)
qed

lemma reserve_times_prefix:
  "\<exists>n\<le>length ts. attempted (trace (fst (reserve_times env ts failures h)))
       = attempted (trace h) @ take n ts"
proof (induction ts arbitrary: failures h)
  case Nil
  show ?case by (simp add: return_val_def)
next
  case (Cons t ts)
  obtain h1 a where a: "attempt_time env t h = (h1, Inr a)"
    using attempt_time_returns by blast
  have tr: "attempted (trace h1) = attempted (trace h) @ [t]"
    using attempt_time_attempted [of env t h] a by simp
  show ?case
  proof (cases a)
    case Booked
    then have "reserve_times env (t # ts) failures h = (h1, Inr None)"
      using a by (simp add: and_then_def return_val_def)
    then have "attempted (trace (fst (reserve_times env (t # ts) failures h)))
        = attempted (trace h) @ take 1 (t # ts)"
      using tr by simp
    then show ?thesis by (intro exI [of _ 1]) simp
  next
    case Not_booked
    then have eq: "reserve_times env (t # ts) failures h = reserve_times env ts failures h1"
      using a by (simp add: and_then_def)
    obtain n where "n \<le> length ts"
      "attempted (trace (fst (reserve_times env ts failures h1))) = attempted (trace h1) @ take n ts"
      using Cons.IH by blast
    then show ?thesis using eq tr by (intro exI [of _ "Suc n"]) simp
  next
    case Raised
    then have eq: "reserve_times env (t # ts) failures h = reserve_times env ts (failures @ [t]) h1"
      using a by (simp add: and_then_def)
    obtain n where "n \<le> length ts"
      "attempted (trace (fst (reserve_times env ts (failures @ [t]) h1))) = attempted (trace h1) @ take n ts"
      using Cons.IH by blast
    then show ?thesis using eq tr by (intro exI [of _ "Suc n"]) simp
  qed
qed

lemma reserve_times_append:
  "reserve_times env before failures h = (h2, Inr (Some failures2)) \<Longrightarrow>
   reserve_times env (before @ rest) failures h = reserve_times env rest failures2 h2
   \<and> attempted (trace h2) = attempted (trace h) @ before"
proof (induction before arbitrary: failures h)
  case Nil
  then show ?case by (simp add: return_val_def)
next
  case (Cons t ts)
  obtain h1 a where a: "attempt_time env t h = (h1, Inr a)"
    using attempt_time_returns by blast
  have tr: "attempted (trace h1) = attempted (trace h) @ [t]"
    using attempt_time_attempted [of env t h] a by simp
  show ?case
  proof (cases a)
    case Booked
    then have "reserve_times env (t # ts) failures h = (h1, Inr None)"
      using a by (simp add: and_then_def return_val_def)
    then show ?thesis using Cons.prems by simp
  next
    case Not_booked
    then have eq: "reserve_times env (t # ts @ rest') failures h = reserve_times env (ts @ rest') failures h1" for rest'
      using a by (simp add: and_then_def)
    from eq [of "[]"] Cons.prems have "reserve_times env ts failures h1 = (h2, Inr (Some failures2))"
      by simp
    from Cons.IH [OF this] show ?thesis using eq [of rest] tr by simp
  next
    case Raised
    then have eq: "reserve_times env (t # ts @ rest') failures h = reserve_times env (ts @ rest') (failures @ [t]) h1" for rest'
      using a by (simp add: and_then_def)
    from eq [of "[]"] Cons.prems have "reserve_times env ts (failures @ [t]) h1 = (h2, Inr (Some failures2))"
      by simp
    from Cons.IH [OF this] show ?thesis using eq [of rest] tr by simp
  qed
qed

text \<open>
  Claim C7. With an empty list of candidate times \<^verbatim>\<open>make_reservations\<close> ends as its
  preparation (login, waiting, filters) ends: when the filters are set in a handler \<open>h1\<close>,
  the run returns \<open>h1\<close> itself, so \<^verbatim>\<open>_reserve_time\<close> was not entered, the browser was not
  called again and neither a success message nor a failure list was printed.
\<close>

theorem make_reservations_no_times:
  "make_reservations env date indoor duration [] h = prepare env date indoor duration h
   \<and> reserve_times env [] [] h1 = (h1, Inr (Some []))
   \<and> book env [] h1 = (h1, Inr ())"
  by (simp add: make_reservations_def book_def and_then_def return_val_def
      split: option.split prod.split sum.split)

text \<open>
  Claim C5. After a preparation that ends in \<open>h1\<close>, the hours for which \<^verbatim>\<open>_reserve_time\<close> is
  entered are a prefix of the candidate times, in the order of the list. When the loop
  over the hours \<open>before\<close> ends with nothing booked, each of them was attempted in order;
  when the attempt for the next hour \<open>t\<close> then returns \<^verbatim>\<open>True\<close>, the run prints the success
  message and returns at once, whatever hours come \<open>after\<close>: none of them is attempted.
\<close>

theorem make_reservations_in_order:
  assumes "prepare env date indoor duration h = Some (h1, Inr ())"
  shows "(\<exists>h' n. n \<le> length ts
            \<and> make_reservations env date indoor duration ts h = Some (h', Inr ())
            \<and> attempted (trace h') = attempted (trace h1) @ take n ts)
       \<and> (reserve_times env before [] h1 = (h2, Inr (Some failures)) \<longrightarrow>
            attempted (trace h2) = attempted (trace h1) @ before
            \<and> (reserve_time env t h2 = (h3, Inr True) \<longrightarrow>
                 make_reservations env date indoor duration (before @ t # after) h
                   = Some (h3\<lparr>stdout := stdout h3 @ [success_message t]\<rparr>, Inr ())
                 \<and> attempted (trace h3) = attempted (trace h2) @ [t]))"
proof (intro conjI impI)
  obtain h' r where r: "reserve_times env ts [] h1 = (h', Inr r)"
    using reserve_times_returns by blast
  obtain n where n: "n \<le> length ts"
    "attempted (trace (fst (reserve_times env ts [] h1))) = attempted (trace h1) @ take n ts"
    using reserve_times_prefix by blast
  have "\<exists>h''. book env ts h1 = (h'', Inr ()) \<and> trace h'' = trace h'"
    using r by (cases r) (simp_all add: book_def and_then_def return_val_def print_def)
  then obtain h'' where b: "book env ts h1 = (h'', Inr ())" "trace h'' = trace h'"
    by blast
  have "make_reservations env date indoor duration ts h = Some (h'', Inr ())"
    using assms b by (simp add: make_reservations_def)
  moreover have "attempted (trace h'') = attempted (trace h1) @ take n ts"
    using n r b by simp
  ultimately show "\<exists>h' n. n \<le> length ts
            \<and> make_reservations env date indoor duration ts h = Some (h', Inr ())
            \<and> attempted (trace h') = attempted (trace h1) @ take n ts"
    using n(1) by blast
next
  assume "reserve_times env before [] h1 = (h2, Inr (Some failures))"
  from reserve_times_append [OF this, of "[]"]
  show "attempted (trace h2) = attempted (trace h1) @ before" by simp
next
  assume before: "reserve_times env before [] h1 = (h2, Inr (Some failures))"
    and t: "reserve_time env t h2 = (h3, Inr True)"
  have "attempt_time env t h2 = (h3\<lparr>stdout := stdout h3 @ [success_message t]\<rparr>, Inr Booked)"
    using t by (simp add: attempt_time_def try_except_def and_then_def print_def return_val_def)
  then have "reserve_times env (t # after) failures h2
      = (h3\<lparr>stdout := stdout h3 @ [success_message t]\<rparr>, Inr None)"
    by (simp add: and_then_def return_val_def)
  then have "reserve_times env (before @ t # after) [] h1
      = (h3\<lparr>stdout := stdout h3 @ [success_message t]\<rparr>, Inr None)"
    using reserve_times_append [OF before, of "t # after"] by simp
  then have "book env (before @ t # after) h1
      = (h3\<lparr>stdout := stdout h3 @ [success_message t]\<rparr>, Inr ())"
    by (simp add: book_def and_then_def return_val_def)
  then show "make_reservations env date indoor duration (before @ t # after) h
      = Some (h3\<lparr>stdout := stdout h3 @ [success_message t]\<rparr>, Inr ())"
    using assms by (simp add: make_reservations_def)
next
  assume "reserve_time env t h2 = (h3, Inr True)"
  then show "attempted (trace h3) = attempted (trace h2) @ [t]"
    using reserve_time_attempted [of env t h2] by simp
qed

theorem make_reservations_in_order_witness:
  "map_option (\<lambda>(h', r). (stdout h', attempted (trace h'), r))
     (make_reservations site_env june_1 False 2 [7, 8, 9]
        (visitor (morning_site three_slots [] [100] [101])))
   = Some ([success_message 8], [7, 8], Inr ())"
proof -
  let ?h = "visitor (morning_site three_slots [] [100] [101])"
  let ?h1 = "fst (the (prepare site_env june_1 False 2 ?h))"
  let ?h2 = "fst (reserve_time site_env 7 ?h1)"
  let ?h3 = "fst (reserve_time site_env 8 ?h2)"
  have p: "prepare site_env june_1 False 2 ?h = Some (?h1, Inr ())"
    by code_simp
  have b: "reserve_times site_env [7] [] ?h1 = (?h2, Inr (Some []))"
    by code_simp
  have t: "reserve_time site_env 8 ?h2 = (?h3, Inr True)"
    by code_simp
  have a: "attempted (trace ?h1) = []" and s: "stdout ?h3 = []"
    by code_simp+
  from make_reservations_in_order [OF p, of "[7, 8, 9]" "[7]" ?h2 "[]" 8 ?h3 "[9]"] b t a s
  show ?thesis by simp
qed


section \<open>Exceptions during the attempts\<close>

lemma reserve_elements_returns: "\<exists>h' b. reserve_elements env es h = (h', Inr b)"
proof (induction es arbitrary: h)
  case Nil
  show ?case by (auto simp: return_val_def)
next
  case (Cons e es)
  obtain h1 r where r: "book_element env e h = (h1, r)"
    by (cases "book_element env e h")
  show ?case using r Cons.IH [of h1]
    by (cases r) (auto simp: try_except_def and_then_def return_val_def)
qed

lemma book_returns: "\<exists>h'. book env ts h = (h', Inr ())"
proof -
  obtain h1 r where "reserve_times env ts [] h = (h1, Inr r)"
    using reserve_times_returns by blast
  then show ?thesis
    by (cases r) (simp_all add: book_def and_then_def return_val_def print_def)
qed

text \<open>
  Claim C6. The loop of \<^verbatim>\<open>_reserve_time\<close> over the matching elements always returns a
  truth value, it raises nothing; when the steps for one element \<open>e\<close> (the click, the wait
  for Book Now, its click, the wait for the banner) raise, the loop goes on with the
  elements left, from the handler the failed steps left. When \<^verbatim>\<open>_reserve_time(t)\<close> itself
  raises, \<^verbatim>\<open>make_reservations\<close> adds \<open>t\<close> to the failures and goes on with the hours left;
  the loop over the hours and the report always end normally, and so does the whole run
  once the preparation has.
\<close>

theorem exceptions_swallowed:
  "(\<exists>h' b. reserve_elements env es h = (h', Inr b))
   \<and> (book_element env e h = (h1, Inl x) \<longrightarrow>
        reserve_elements env (e # es) h = reserve_elements env es h1)
   \<and> (reserve_time env t h = (h2, Inl y) \<longrightarrow>
        reserve_times env (t # ts) failures h = reserve_times env ts (failures @ [t]) h2)
   \<and> (\<exists>h'. book env ts h = (h', Inr ()))
   \<and> (prepare env date indoor duration h = Some (h3, Inr ()) \<longrightarrow>
        (\<exists>h'. make_reservations env date indoor duration ts h = Some (h', Inr ())))"
proof (intro conjI impI)
  show "\<exists>h' b. reserve_elements env es h = (h', Inr b)"
    by (rule reserve_elements_returns)
next
  assume "book_element env e h = (h1, Inl x)"
  then show "reserve_elements env (e # es) h = reserve_elements env es h1"
    by (simp add: try_except_def and_then_def)
next
  assume "reserve_time env t h = (h2, Inl y)"
  then have "attempt_time env t h = (h2, Inr Raised)"
    by (simp add: attempt_time_def try_except_def and_then_def return_val_def)
  then show "reserve_times env (t # ts) failures h = reserve_times env ts (failures @ [t]) h2"
    by (simp add: and_then_def)
next
  show "\<exists>h'. book env ts h = (h', Inr ())"
    by (rule book_returns)
next
  assume "prepare env date indoor duration h = Some (h3, Inr ())"
  then show "\<exists>h'. make_reservations env date indoor duration ts h = Some (h', Inr ())"
    using book_returns [of env ts h3] by (auto simp: make_reservations_def)
qed

theorem exceptions_swallowed_witness:
  "book_element site_env 100 (visitor (morning_site three_slots [101] [100] []))
     = (fst (book_element site_env 100 (visitor (morning_site three_slots [101] [100] []))),
        Inl (WebDriverException ''element click intercepted''))
   \<and> reserve_elements site_env [100, 102] (visitor (morning_site three_slots [101] [100] []))
     = reserve_elements site_env [102]
         (fst (book_element site_env 100 (visitor (morning_site three_slots [101] [100] []))))
   \<and> reserve_time site_env 7 (visitor (morning_site three_slots [101] [100] []))
     = (fst (reserve_time site_env 7 (visitor (morning_site three_slots [101] [100] []))),
        Inl (WebDriverException ''stale element reference''))
   \<and> reserve_times site_env [7, 8] [] (visitor (morning_site three_slots [101] [100] []))
     = reserve_times site_env [8] [7]
         (fst (reserve_time site_env 7 (visitor (morning_site three_slots [101] [100] []))))
   \<and> map_option snd (make_reservations site_env june_1 False 2 [7, 8, 9]
        (visitor (morning_site three_slots [101] [100] []))) = Some (Inr ())"
proof -
  let ?h = "visitor (morning_site three_slots [101] [100] [])"
  let ?h1 = "fst (book_element site_env 100 ?h)"
  let ?h2 = "fst (reserve_time site_env 7 ?h)"
  let ?h3 = "fst (the (prepare site_env june_1 False 2 ?h))"
  have b: "book_element site_env 100 ?h = (?h1, Inl (WebDriverException ''element click intercepted''))"
    by code_simp
  have r: "reserve_time site_env 7 ?h = (?h2, Inl (WebDriverException ''stale element reference''))"
    by code_simp
  have p: "prepare site_env june_1 False 2 ?h = Some (?h3, Inr ())"
    by code_simp
  from exceptions_swallowed [of site_env "[102]" ?h 100 ?h1 "WebDriverException ''element click intercepted''"
      7 ?h2 "WebDriverException ''stale element reference''" "[8]" "[]" june_1 False 2 ?h3]
    exceptions_swallowed [of site_env "[102]" ?h 100 ?h1 "WebDriverException ''element click intercepted''"
      7 ?h2 "WebDriverException ''stale element reference''" "[7, 8, 9]" "[]" june_1 False 2 ?h3]
    b r p
  show ?thesis by auto
qed

section \<open>Filters that are already set\<close>

text \<open>
  Claim C8. Let a dropdown \<open>e\<close> show \<open>label\<close>, on both reads the loop body of
  \<^verbatim>\<open>_set_options\<close> makes. When \<open>label\<close> is the requested court type, or is a duration label
  and the requested one, the body only reads the text twice and goes on to the next
  dropdown: the trace gains two \<open>Text e\<close> events and nothing else, so there is no click, no
  search for the options and no wait for the table to load, and nothing is printed.
\<close>

theorem set_dropdown_already_selected:
  assumes "element_text env e (driver h) = (w1, Inr label)"
      and "element_text env e w1 = (w2, Inr label)"
      and "label = court_type_text indoors
           \<or> (label \<in> set [''1 hour'', ''2 hours''] \<and> label = duration_text duration)"
  shows "set_dropdown env indoors duration e h
           = (h\<lparr>driver := w2, trace := trace h @ [Text e, Text e]\<rparr>, Inr ())"
proof -
  have first: "perform (Text e) (element_text env e) h
      = (h\<lparr>driver := w1, trace := trace h @ [Text e]\<rparr>, Inr label)"
    using assms(1) by (simp add: perform_def)
  have second: "perform (Text e) (element_text env e) (h\<lparr>driver := w1, trace := trace h @ [Text e]\<rparr>)
      = (h\<lparr>driver := w2, trace := trace h @ [Text e, Text e]\<rparr>, Inr label)"
    using assms(2) by (simp add: perform_def)
  from assms(3) show ?thesis
  proof
    assume court: "label = court_type_text indoors"
    then have "label \<in> set [''Tennis Courts - Outdoor Tennis Court.'',
                           ''Tennis Courts - Indoor Tennis Court.'',
                           ''Squash Courts - Singles Squash Courts'',
                           ''Squash Courts - Doubles Squash Courts'']"
      by (simp add: court_type_text_def)
    then show ?thesis
      using first second court
      by (simp add: set_dropdown_def and_then_def return_val_def del: set_simps)
  next
    assume dur: "label \<in> set [''1 hour'', ''2 hours''] \<and> label = duration_text duration"
    then have eq: "label = duration_text duration"
      and is_duration: "duration_text duration \<in> set [''1 hour'', ''2 hours'']"
      by auto
    have no_court: "duration_text duration \<notin> set [''Tennis Courts - Outdoor Tennis Court.'',
                           ''Tennis Courts - Indoor Tennis Court.'',
                           ''Squash Courts - Singles Squash Courts'',
                           ''Squash Courts - Doubles Squash Courts'']"
      using is_duration by auto
    have "set_dropdown env indoors duration e h
        = and_then (perform (Text e) (element_text env e)) (\<lambda>text.
            if text = duration_text duration then return_val ()
            else
              and_then (perform (Click e) (element_click env e)) (\<lambda>_.
              and_then (check_element env (CSS_SELECTOR, selector_css @ ''.open'') [] 1) (\<lambda>_.
              and_then (perform (Find_elements CSS_SELECTOR option_li_selector)
                          (driver_find_elements env CSS_SELECTOR option_li_selector))
                (select_duration env duration))))
            (h\<lparr>driver := w1, trace := trace h @ [Text e]\<rparr>)"
      unfolding set_dropdown_def
      by (subst and_then_def)
         (simp only: first [unfolded eq] prod.case sum.case no_court is_duration if_False if_True)
    also have "\<dots> = (h\<lparr>driver := w2, trace := trace h @ [Text e, Text e]\<rparr>, Inr ())"
      using eq by (simp add: and_then_def second return_val_def)
    finally show ?thesis .
  qed
qed

theorem set_dropdown_already_selected_witness:
  "set_dropdown site_env False 2 20 (visitor (morning_site three_slots [] [] []))
     = ((visitor (morning_site three_slots [] [] []))\<lparr>trace := [Text 20, Text 20]\<rparr>, Inr ())
   \<and> set_dropdown site_env False 2 21 (visitor (morning_site three_slots [] [] []))
     = ((visitor (morning_site three_slots [] [] []))\<lparr>trace := [Text 21, Text 21]\<rparr>, Inr ())"
proof -
  let ?w = "morning_site three_slots [] [] []"
  have d: "driver (visitor ?w) = ?w" and t: "trace (visitor ?w) = []"
    by (simp_all add: visitor_def new_handler_def)
  have court: "element_text site_env 20 ?w = (?w, Inr ''Tennis Courts - Outdoor Tennis Court.'')"
    by (simp add: site_env_def site_text_def morning_site_def)
  have dur: "element_text site_env 21 ?w = (?w, Inr ''2 hours'')"
    by (simp add: site_env_def site_text_def morning_site_def)
  have c: "''Tennis Courts - Outdoor Tennis Court.'' = court_type_text False"
    by (simp add: court_type_text_def)
  have e: "''2 hours'' \<in> set [''1 hour'', ''2 hours''] \<and> ''2 hours'' = duration_text 2"
    by (simp add: duration_text_def str_int_def str_nat.simps digit_char_def)
  have upd: "(visitor ?w)\<lparr>driver := ?w, trace := tr\<rparr> = (visitor ?w)\<lparr>trace := tr\<rparr>" for tr
    by (simp add: visitor_def new_handler_def)
  from set_dropdown_already_selected [of site_env 20 "visitor ?w" ?w _ ?w False 2]
    set_dropdown_already_selected [of site_env 21 "visitor ?w" ?w _ ?w False 2]
    court dur c e
  show ?thesis by (simp add: d t upd)
qed

section \<open>Runs on the small site\<close>

text \<open>
  Claim C1 says that a run in which no hour is booked prints a failure list with every
  candidate hour. The run below is the scenario of the specification (June 1, outdoor,
  two hours, hours 7, 8, 9) on a page where the click on each of the three start-time
  boxes raises. All three hours are attempted, \<^verbatim>\<open>_reserve_time\<close> returns \<^verbatim>\<open>False\<close> each time,
  and nothing is printed: line 44 appends an hour only when \<^verbatim>\<open>_reserve_time\<close> raises. The
  second run is on a page where reading the text of a start-time box raises; there the
  handler of line 43 runs for each hour and the list of the three hours is printed.
\<close>

theorem unbooked_hours_not_listed:
  "map_option (\<lambda>(h', r). (stdout h', attempted (trace h'), r))
     (make_reservations site_env june_1 False 2 [7, 8, 9]
        (visitor (morning_site three_slots [] [100, 101, 102] [])))
   = Some ([], [7, 8, 9], Inr ())
   \<and> map_option (\<lambda>(h', r). (stdout h', attempted (trace h'), r))
     (make_reservations site_env june_1 False 2 [7, 8, 9]
        (visitor (morning_site three_slots [101] [] [])))
   = Some ([''Did not manage to book times: '' @ [CHR 0x0A] @ ''  - 07:00'' @ [CHR 0x0A]
              @ ''  - 08:00'' @ [CHR 0x0A] @ ''  - 09:00''], [7, 8, 9], Inr ())"
  by code_simp

text \<open>
  Claim C3 says that the success message contains the booked hour with two digits. The
  run below books hour 7; the line printed is the literal of line 40 as it stands, with
  the text \<open>{t:02d}\<close> in it, and \<open>07\<close> does not occur in it.
\<close>

theorem success_message_without_hour:
  "map_option (\<lambda>(h', r). (stdout h', attempted (trace h'), r))
     (make_reservations site_env june_1 False 2 [7]
        (visitor (morning_site three_slots [] [] [100])))
   = Some ([''Made a reservation at time {t:02d}:00. Check your email for more information''],
           [7], Inr ())
   \<and> \<not> sublist (format_02d 7)
         ''Made a reservation at time {t:02d}:00. Check your email for more information''"
  by code_simp

text \<open>
  Claim C2 says that a target time of day earlier than the current one gives the
  occurrence of the following day. At 07:00:00.000001 the target 06:59:56 (the one
  \<^verbatim>\<open>make_reservations\<close> passes) has passed, but line 91 compares the fields one by one,
  and the minute 0 is below 59: the opening time computed is 06:59:56 of the same day,
  and \<^verbatim>\<open>_wait\<close> returns after reading the clock once, without sleeping.
\<close>

theorem opening_time_in_the_past:
  "opening_time \<lparr>ts_day = 0, ts_hour = 7, ts_minute = 0, ts_second = 0, ts_microsecond = 1\<rparr> 6 59 56
     = Inr \<lparr>ts_day = 0, ts_hour = 6, ts_minute = 59, ts_second = 56, ts_microsecond = 0\<rparr>
   \<and> map_option (\<lambda>(h', r). (trace h', r))
       (wait site_env (6, 59, 56)
          (visitor ((morning_site three_slots [] [] [])
             \<lparr>clock := \<lparr>ts_day = 0, ts_hour = 7, ts_minute = 0, ts_second = 0, ts_microsecond = 1\<rparr>\<rparr>)))
     = Some ([Now], Inr ())"
  by code_simp

text \<open>
  The other half of that claim holds: a target time of day later than the current one
  gives the occurrence of today.
\<close>

lemma opening_time_later_today:
  assumes "0 \<le> hour" "hour \<le> 23" "0 \<le> minute" "minute \<le> 59" "0 \<le> second" "second \<le> 59"
    and "0 \<le> ts_minute now" "ts_minute now \<le> 59" "0 \<le> ts_second now" "ts_second now \<le> 59"
    and "0 \<le> ts_microsecond now"
    and "((ts_hour now * 60 + ts_minute now) * 60 + ts_second now) * 1000000 + ts_microsecond now
           < ((hour * 60 + minute) * 60 + second) * 1000000"
  shows "opening_time now hour minute second
           = Inr (now\<lparr>ts_hour := hour, ts_minute := minute, ts_second := second, ts_microsecond := 0\<rparr>)"
proof -
  have "\<not> (ts_hour now \<ge> hour \<and> ts_minute now \<ge> minute \<and> ts_second now \<ge> second
         \<and> ts_microsecond now > 0)"
    using assms by auto
  then have "opening_time now hour minute second = replace (floor_d now) hour minute second"
    unfolding opening_time_def by (rule if_not_P)
  then show ?thesis
    using assms(1-6) by (simp add: replace_def floor_d_def)
qed


section \<open>Further facts about the attempts\<close>

text \<open>
  \<^verbatim>\<open>_reserve_time\<close> returns \<^verbatim>\<open>True\<close> only after the wait for the success banner has returned:
  that wait is the last call of the browser.
\<close>

lemma and_then_InrD:
  "and_then m f h = (h', Inr y) \<Longrightarrow> \<exists>h1 x. m h = (h1, Inr x) \<and> f x h1 = (h', Inr y)"
  by (auto simp: and_then_def split: prod.splits sum.splits)

lemma check_element_last:
  "check_element env locator msg 1 h = (h', Inr u) \<Longrightarrow>
   trace h' = trace h @ [Until_present locator 1]"
  by (auto simp: check_element_def try_except_def perform_def raise_exn_def
      split: prod.splits sum.splits exn.splits if_splits)

lemma book_element_banner:
  "book_element env e h = (h', Inr u) \<Longrightarrow>
   \<exists>tr. trace h' = tr @ [Until_present (CSS_SELECTOR, ''h1.banner-title.ng-scope'') 1]"
  unfolding book_element_def
  by (auto dest!: and_then_InrD dest: check_element_last)

lemma reserve_elements_banner:
  "reserve_elements env es h = (h', Inr True) \<Longrightarrow>
   \<exists>tr. trace h' = tr @ [Until_present (CSS_SELECTOR, ''h1.banner-title.ng-scope'') 1]"
proof (induction es arbitrary: h)
  case Nil
  then show ?case by (simp add: return_val_def)
next
  case (Cons e es)
  obtain h1 r where r: "book_element env e h = (h1, r)"
    by (cases "book_element env e h")
  show ?case
  proof (cases r)
    case (Inl x)
    then have "reserve_elements env (e # es) h = reserve_elements env es h1"
      using r by (simp add: try_except_def and_then_def)
    then show ?thesis using Cons by simp
  next
    case (Inr u)
    then have "reserve_elements env (e # es) h = (h1, Inr True)"
      using r by (simp add: try_except_def and_then_def return_val_def)
    then show ?thesis using Cons.prems book_element_banner r Inr by fastforce
  qed
qed

lemma reserve_time_banner:
  "reserve_time env t h = (h', Inr True) \<Longrightarrow>
   \<exists>tr. trace h' = tr @ [Until_present (CSS_SELECTOR, ''h1.banner-title.ng-scope'') 1]"
  unfolding reserve_time_def
  by (auto dest!: and_then_InrD dest: reserve_elements_banner)

text \<open>
  On any site: when \<^verbatim>\<open>_reserve_time\<close> returns \<^verbatim>\<open>False\<close> for each candidate hour and prints
  nothing itself, \<^verbatim>\<open>make_reservations\<close> prints nothing after the preparation, however many
  hours failed.
\<close>

lemma reserve_times_all_False:
  assumes "\<And>t h. t \<in> set ts \<Longrightarrow> \<exists>h'. reserve_time env t h = (h', Inr False) \<and> stdout h' = stdout h"
  shows "\<exists>h'. reserve_times env ts failures h = (h', Inr (Some failures)) \<and> stdout h' = stdout h"
  using assms
proof (induction ts arbitrary: h)
  case Nil
  show ?case by (simp add: return_val_def)
next
  case (Cons t ts)
  obtain h1 where h1: "reserve_time env t h = (h1, Inr False)" "stdout h1 = stdout h"
    using Cons.prems [of t h] by auto
  then have "attempt_time env t h = (h1, Inr Not_booked)"
    by (simp add: attempt_time_def try_except_def and_then_def return_val_def)
  then have "reserve_times env (t # ts) failures h = reserve_times env ts failures h1"
    by (simp add: and_then_def)
  moreover have "\<exists>h'. reserve_times env ts failures h1 = (h', Inr (Some failures)) \<and> stdout h' = stdout h1"
    using Cons.IH [of h1] Cons.prems by simp
  ultimately show ?case using h1(2) by auto
qed

lemma book_prints_nothing_when_no_attempt_raises:
  assumes "\<And>t h. t \<in> set ts \<Longrightarrow> \<exists>h'. reserve_time env t h = (h', Inr False) \<and> stdout h' = stdout h"
  shows "\<exists>h'. book env ts h = (h', Inr ()) \<and> stdout h' = stdout h"
proof -
  obtain h' where "reserve_times env ts [] h = (h', Inr (Some []))" "stdout h' = stdout h"
    using reserve_times_all_False [OF assms, of ts "[]" h] by auto
  then show ?thesis
    by (simp add: book_def and_then_def return_val_def)
qed

end
